theory Spec2Isabelle
  imports Main "HOL-Library.Product_Lexorder"
begin

section \<open>Python values and string operations used by scheduler.py\<close>

text \<open>
  The scheduler (src/scheduler/scheduler.py) is embedded function by function. Python
  exceptions are values of \<open>py_error\<close>; a function that may raise returns
  \<open>py_error + 'a\<close> with \<open>Inl\<close> for the exception. Strings are byte strings: the
  model covers ASCII text, which is what the schedule columns hold.
\<close>

datatype py_error = ValueError | OverflowError | IndexError | AttributeError | JSONDecodeError

text \<open>\<open>str.isspace\<close> on ASCII: TAB, LF, VT, FF, CR, FS, GS, RS, US and the blank.\<close>

definition is_space :: "char \<Rightarrow> bool" where
  "is_space c \<longleftrightarrow> c \<in> set [CHR 0x09, CHR 0x0A, CHR 0x0B, CHR 0x0C, CHR 0x0D,
                           CHR 0x1C, CHR 0x1D, CHR 0x1E, CHR 0x1F, CHR 0x20]"

text \<open>\<open>s.strip()\<close>\<close>

definition strip :: "string \<Rightarrow> string" where
  "strip s = rev (dropWhile is_space (rev (dropWhile is_space s)))"

text \<open>\<open>s.upper()\<close> on ASCII letters.\<close>

definition upper_char :: "char \<Rightarrow> char" where
  "upper_char c =
     (case map_of (zip ''abcdefghijklmnopqrstuvwxyz'' ''ABCDEFGHIJKLMNOPQRSTUVWXYZ'') c of
        None \<Rightarrow> c | Some u \<Rightarrow> u)"

definition upper :: "string \<Rightarrow> string" where
  "upper s = map upper_char s"

text \<open>\<open>s.split(sep)\<close> for a one-character separator: never the empty list.\<close>

fun split_on :: "char \<Rightarrow> string \<Rightarrow> string list" where
  "split_on sep [] = [[]]"
| "split_on sep (c # cs) =
     (if c = sep then [] # split_on sep cs
      else (case split_on sep cs of
              [] \<Rightarrow> [[c]]
            | w # ws \<Rightarrow> (c # w) # ws))"

text \<open>
  \<open>int(s)\<close> on a string: surrounding whitespace is dropped, one sign is allowed, then
  decimal digits, where single underscores may stand between digits. \<open>None\<close> is the
  \<open>ValueError\<close>.
\<close>

definition digit_val :: "char \<Rightarrow> int option" where
  "digit_val c = map_of (zip ''0123456789'' [0, 1, 2, 3, 4, 5, 6, 7, 8, 9]) c"

fun parse_digits :: "int \<Rightarrow> string \<Rightarrow> int option" where
  "parse_digits acc [] = Some acc"
| "parse_digits acc [c] =
     (case digit_val c of None \<Rightarrow> None | Some v \<Rightarrow> Some (acc * 10 + v))"
| "parse_digits acc (c # d # ds) =
     (if c = CHR ''_'' then
        (case digit_val d of None \<Rightarrow> None | Some v \<Rightarrow> parse_digits (acc * 10 + v) ds)
      else
        (case digit_val c of None \<Rightarrow> None | Some v \<Rightarrow> parse_digits (acc * 10 + v) (d # ds)))"

definition parse_unsigned :: "string \<Rightarrow> int option" where
  "parse_unsigned s =
     (case s of
        [] \<Rightarrow> None
      | c # cs \<Rightarrow> (case digit_val c of None \<Rightarrow> None | Some v \<Rightarrow> parse_digits v cs))"

definition py_int :: "string \<Rightarrow> int option" where
  "py_int s =
     (case strip s of
        [] \<Rightarrow> None
      | c # cs \<Rightarrow>
          if c = CHR ''-'' then map_option uminus (parse_unsigned cs)
          else if c = CHR ''+'' then parse_unsigned cs
          else parse_unsigned (c # cs))"

section \<open>Configuration: \<open>DEFAULT_CONFIG\<close> and \<open>load_config\<close>\<close>

datatype jval = JStr string | JInt int | JBool bool

type_synonym jdict = "(string \<times> jval) list"

datatype jnode = JObj jdict | JLeaf jval

type_synonym config = "(string \<times> jnode) list"

definition DEFAULT_CONFIG :: config where
  "DEFAULT_CONFIG =
    [(''db'', JObj [(''host'', JStr ''127.0.0.1''), (''port'', JInt 3306), (''user'', JStr ''jj''),
                    (''password'', JStr ''jamesjian''), (''database'', JStr ''smartcare''),
                    (''pool_size'', JInt 5), (''connect_timeout'', JInt 10),
                    (''charset'', JStr ''utf8mb4'')]),
     (''scheduler'', JObj [(''poll_interval_sec'', JInt 2), (''batch'', JInt 20),
                    (''mysql_session_time_zone'', JStr ''+08:00''),
                    (''default_timezone'', JStr ''Asia/Taipei''), (''log_file'', JStr ''''),
                    (''control_enabled'', JBool True), (''control_host'', JStr ''127.0.0.1''),
                    (''control_port'', JInt 5055), (''control_token'', JStr ''CHANGE_ME'')]),
     (''mqtt'', JObj [(''host'', JStr ''broker.emqx.io''), (''port'', JInt 1883),
                    (''username'', JStr ''''), (''password'', JStr ''''),
                    (''client_id_prefix'', JStr ''sched-''), (''keepalive'', JInt 30),
                    (''tls'', JBool False)]),
     (''http'', JObj [(''user_agent'', JStr ''JJ-Scheduler/3.0''), (''verify_tls'', JBool True)])]"

text \<open>
  A file holds a JSON object (what \<open>json.dump\<close> wrote and \<open>json.load\<close> reads back) or
  text that is not JSON. The file system maps paths to contents.
\<close>

datatype fcontent = FJson config | FGarbage

type_synonym filesystem = "string \<Rightarrow> fcontent option"

datatype console = WarnConfigCreated string

text \<open>\<open>d.setdefault(kk, vv)\<close> for each default of one section.\<close>

definition setdefault :: "jdict \<Rightarrow> string \<times> jval \<Rightarrow> jdict" where
  "setdefault d kv = (if fst kv \<in> fst ` set d then d else d @ [kv])"

definition merge_section :: "jdict \<Rightarrow> jdict \<Rightarrow> jdict" where
  "merge_section defaults d = foldl setdefault d defaults"

text \<open>The loop \<open>for k,v in DEFAULT_CONFIG.items()\<close> of \<open>load_config\<close>.\<close>

fun merge_defaults :: "config \<Rightarrow> config \<Rightarrow> py_error + config" where
  "merge_defaults [] cfg = Inr cfg"
| "merge_defaults ((k, v) # rest) cfg =
     (case map_of cfg k of
        None \<Rightarrow> merge_defaults rest (cfg @ [(k, v)])
      | Some cur \<Rightarrow>
          (case v of
             JLeaf _ \<Rightarrow> merge_defaults rest cfg
           | JObj dv \<Rightarrow>
               (case cur of
                  JLeaf _ \<Rightarrow> Inl AttributeError
                | JObj dc \<Rightarrow>
                    merge_defaults rest
                      (map (\<lambda>(k', n). if k' = k then (k', JObj (merge_section dv dc)) else (k', n)) cfg))))"

record load_result =
  files :: filesystem
  printed :: "console list"
  loaded :: "py_error + config"

definition load_config :: "filesystem \<Rightarrow> string \<Rightarrow> load_result" where
  "load_config fs path =
     (let fs1 = (if fs path = None then fs(path \<mapsto> FJson DEFAULT_CONFIG) else fs);
          out = (if fs path = None then [WarnConfigCreated path] else [])
      in \<lparr>files = fs1, printed = out,
          loaded = (case fs1 path of
                      Some (FJson cfg) \<Rightarrow> merge_defaults DEFAULT_CONFIG cfg
                    | _ \<Rightarrow> Inl JSONDecodeError)\<rparr>)"

text \<open>\<open>cfg[section][key]\<close>, as \<open>run_loop\<close> reads the configuration.\<close>

definition cfg_get :: "config \<Rightarrow> string \<Rightarrow> string \<Rightarrow> jval option" where
  "cfg_get cfg section key =
     (case map_of cfg section of
        Some (JObj d) \<Rightarrow> map_of d key
      | _ \<Rightarrow> None)"

section \<open>The control plane: \<open>_ControlHandler.do_GET\<close>\<close>

text \<open>
  A request is given by what \<open>urlparse\<close> and \<open>parse_qs\<close> make of \<open>self.path\<close>
  and by the \<open>X-Token\<close> header. \<open>parse_qs\<close> drops blank values, so a key it
  returns carries a non-empty list of non-empty strings; the model still follows the
  code on any list.
\<close>

record request =
  url_path :: string
  qs :: "(string \<times> string list) list"
  x_token :: "string option"

datatype payload = POk | PQueued int | PError string

type_synonym response = "nat \<times> payload"

text \<open>\<open>qs.get(key, [None])[0]\<close>\<close>

definition qs_first :: "(string \<times> string list) list \<Rightarrow> string \<Rightarrow> py_error + string option" where
  "qs_first q key =
     (case map_of q key of
        None \<Rightarrow> Inr None
      | Some [] \<Rightarrow> Inl IndexError
      | Some (v # _) \<Rightarrow> Inr (Some v))"

text \<open>\<open>a or b\<close> on optional strings: \<open>None\<close> and the empty string are falsy.\<close>

definition py_or :: "string option \<Rightarrow> string option \<Rightarrow> string option" where
  "py_or a b = (case a of None \<Rightarrow> b | Some s \<Rightarrow> if s = [] then b else Some s)"

text \<open>
  \<open>do_GET\<close> returns the response sent and the immediate queue after the call
  (\<open>enqueue_immediate\<close> appends the id).
\<close>

definition enqueue_immediate :: "int list \<Rightarrow> int \<Rightarrow> int list" where
  "enqueue_immediate queue job_id = queue @ [job_id]"

definition do_GET :: "string \<Rightarrow> request \<Rightarrow> int list \<Rightarrow> response \<times> int list" where
  "do_GET control_token req queue =
     (if url_path req \<noteq> ''/run_immediate'' \<and> url_path req \<noteq> ''/health''
        then ((404, PError ''not_found''), queue)
      else if url_path req = ''/health'' then ((200, POk), queue)
      else
        (case qs_first (qs req) ''job_id'' of
           Inl e \<Rightarrow> ((500, PError ''exception''), queue)
         | Inr job_id \<Rightarrow>
            (case qs_first (qs req) ''token'' of
               Inl e \<Rightarrow> ((500, PError ''exception''), queue)
             | Inr qtok \<Rightarrow>
                (let token = py_or qtok (x_token req) in
                 if control_token \<noteq> [] \<and> token \<noteq> Some control_token
                   then ((403, PError ''forbidden''), queue)
                 else
                   (case job_id of
                      None \<Rightarrow> ((400, PError ''missing_job_id''), queue)
                    | Some js \<Rightarrow>
                       (case py_int js of
                          None \<Rightarrow> ((400, PError ''bad_job_id''), queue)
                        | Some jid \<Rightarrow> ((200, PQueued jid), enqueue_immediate queue jid)))))))"

section \<open>Dates, times and zones\<close>

text \<open>
  A naive \<open>datetime\<close> is the number of microseconds since 0001-01-01 00:00:00 on its
  own wall clock; a \<open>date\<close> is a day number, 0 for 0001-01-01 (Python's
  \<open>toordinal() - 1\<close>). \<open>datetime(d.year, d.month, d.day, h, m, s)\<close> is then day
  \<open>d\<close> at \<open>h:m:s\<close>, and \<open>weekday()\<close> is the day number modulo 7, Monday being 0.
\<close>

type_synonym datetime = int

type_synonym dtime = "int \<times> int \<times> int"

definition us_per_sec :: int where
  "us_per_sec = 1000000"

definition us_per_day :: int where
  "us_per_day = 86400 * 1000000"

definition date_of :: "datetime \<Rightarrow> int" where
  "date_of t = t div us_per_day"

definition weekday :: "int \<Rightarrow> int" where
  "weekday d = d mod 7"

text \<open>\<open>date.max\<close> is 9999-12-31; \<open>date + timedelta\<close> beyond it raises.\<close>

definition max_day :: int where
  "max_day = 3652058"

definition date_plus_days :: "int \<Rightarrow> nat \<Rightarrow> py_error + int" where
  "date_plus_days d n = (if d + int n > max_day then Inl OverflowError else Inr (d + int n))"

text \<open>The constructor \<open>datetime.time(h, m, s)\<close> checks its ranges.\<close>

definition dtime :: "int \<Rightarrow> int \<Rightarrow> int \<Rightarrow> py_error + dtime" where
  "dtime h m s =
     (if 0 \<le> h \<and> h < 24 \<and> 0 \<le> m \<and> m < 60 \<and> 0 \<le> s \<and> s < 60 then Inr (h, m, s)
      else Inl ValueError)"

definition datetime_at :: "int \<Rightarrow> dtime \<Rightarrow> datetime" where
  "datetime_at d tt =
     (case tt of (h, m, s) \<Rightarrow> d * us_per_day + (h * 3600 + m * 60 + s) * us_per_sec)"

text \<open>
  A zone converts between UTC and its wall clock: \<open>from_utc\<close> is \<open>tz.fromutc\<close>,
  \<open>to_utc\<close> subtracts \<open>utcoffset()\<close> from a wall-clock reading. A \<open>tzinfo\<close> object
  is a zone under its key: \<open>ZoneInfo(key)\<close> returns one object per key, so two objects
  are the same object exactly when their keys are equal.
\<close>

record zone =
  from_utc :: "int \<Rightarrow> datetime"
  to_utc :: "datetime \<Rightarrow> int"

type_synonym tzinfo = "string \<times> zone"

text \<open>
  What the process finds around it: the clock (as a UTC instant), MySQL's \<open>NOW()\<close> in
  the session zone, the zone of the host (\<open>datetime.now()\<close> with no argument reads the
  clock in it), and the zone database behind \<open>ZoneInfo\<close> (nowhere defined when the
  import of \<open>zoneinfo\<close> failed).
\<close>

record env =
  utc_now :: int
  db_now :: datetime
  local_zone :: zone
  zoneinfo_db :: "string \<Rightarrow> zone option"

definition get_zoneinfo :: "env \<Rightarrow> string \<Rightarrow> tzinfo option" where
  "get_zoneinfo e name = map_option (Pair name) (zoneinfo_db e name)"

text \<open>\<open>datetime.now(job_tz) if job_tz else datetime.now()\<close>\<close>

definition now_in :: "env \<Rightarrow> tzinfo option \<Rightarrow> datetime" where
  "now_in e tz =
     (case tz of
        Some z \<Rightarrow> from_utc (snd z) (utc_now e)
      | None \<Rightarrow> from_utc (local_zone e) (utc_now e))"

text \<open>\<open>dt.astimezone(tz)\<close> returns \<open>dt\<close> itself when \<open>tz\<close> is its own zone object.\<close>

definition astimezone :: "tzinfo \<Rightarrow> tzinfo \<Rightarrow> datetime \<Rightarrow> datetime" where
  "astimezone src dst t =
     (if fst src = fst dst then t else from_utc (snd dst) (to_utc (snd src) t))"

text \<open>
  The value returned for a candidate, written three times in \<open>compute_next_run_at\<close>:
  \<open>cand.astimezone(sess_tz).replace(tzinfo=None)\<close> when both zones are there, the
  candidate's own wall clock otherwise.
\<close>

definition to_session :: "tzinfo option \<Rightarrow> tzinfo option \<Rightarrow> datetime \<Rightarrow> datetime" where
  "to_session job_tz sess_tz cand =
     (case job_tz of
        None \<Rightarrow> cand
      | Some jz \<Rightarrow> (case sess_tz of None \<Rightarrow> cand | Some sz \<Rightarrow> astimezone jz sz cand))"

section \<open>The job row\<close>

text \<open>
  A row of \<open>schedule_jobs\<close> as the connector returns it. \<open>time_of_day\<close> is either a
  \<open>datetime.time\<close> or a value known by what \<open>str()\<close> makes of it;
  \<open>days_of_week\<close> is CSV text or a collection of tokens (a MySQL SET arrives as a
  Python set).
\<close>

datatype time_cell = TimeCell int int int | StrCell string

datatype days_cell = DaysStr string | DaysTokens "string list"

record job =
  job_id :: int
  name :: string
  enabled :: bool
  schedule_type :: "string option"
  run_at :: "datetime option"
  times_of_day :: "string option"
  time_of_day :: "time_cell option"
  days_of_week :: "days_cell option"
  timezone :: "string option"
  channel :: string
  payload :: string
  max_retries :: "int option"
  retry_backoff_sec :: "int option"
  next_run_at :: "datetime option"
  last_run_at :: "datetime option"

section \<open>Parsing the schedule fields\<close>

text \<open>\<open>_parse_time_of_day\<close>\<close>

definition parse_time_of_day :: "time_cell \<Rightarrow> py_error + dtime" where
  "parse_time_of_day x =
     (case x of
        TimeCell h m s \<Rightarrow> Inr (h, m, s)
      | StrCell raw \<Rightarrow>
          (let s = strip raw in
           if s = [] then dtime 0 0 0
           else
             (case split_on CHR '':'' (if length s = 5 then s @ '':00'' else s) of
                [hh, mm, ss] \<Rightarrow>
                  (case py_int hh of
                     None \<Rightarrow> Inl ValueError
                   | Some h \<Rightarrow>
                      (case py_int mm of
                         None \<Rightarrow> Inl ValueError
                       | Some m \<Rightarrow>
                          (case py_int ss of
                             None \<Rightarrow> Inl ValueError
                           | Some sec \<Rightarrow> dtime h m sec)))
              | _ \<Rightarrow> Inl ValueError)))"

text \<open>The loop over the parts of \<open>times_of_day\<close> in \<open>_parse_times\<close>.\<close>

fun parse_parts :: "string list \<Rightarrow> py_error + dtime list" where
  "parse_parts [] = Inr []"
| "parse_parts (p # ps) =
     (if strip p = [] then parse_parts ps
      else
        (case parse_time_of_day (StrCell (strip p)) of
           Inl e \<Rightarrow> Inl e
         | Inr t \<Rightarrow> (case parse_parts ps of Inl e \<Rightarrow> Inl e | Inr ts \<Rightarrow> Inr (t # ts))))"

text \<open>\<open>str(tod).strip()\<close> is empty: never so for a \<open>datetime.time\<close>.\<close>

definition cell_blank :: "time_cell \<Rightarrow> bool" where
  "cell_blank x = (case x of TimeCell _ _ _ \<Rightarrow> False | StrCell raw \<Rightarrow> strip raw = [])"

text \<open>
  \<open>_parse_times\<close>: the parts of \<open>times_of_day\<close>, else the single \<open>time_of_day\<close>;
  the dictionary keyed by \<open>(hour, minute, second)\<close> and the sort on that key leave the
  distinct times in ascending order.
\<close>

definition parse_times :: "job \<Rightarrow> py_error + dtime list" where
  "parse_times j =
     (case (case times_of_day j of
              None \<Rightarrow> Inr []
            | Some csv \<Rightarrow> if strip csv = [] then Inr [] else parse_parts (split_on CHR '','' csv)) of
        Inl e \<Rightarrow> Inl e
      | Inr out \<Rightarrow>
          (case (if out \<noteq> [] then Inr out
                 else (case time_of_day j of
                         None \<Rightarrow> Inr []
                       | Some tod \<Rightarrow>
                           if cell_blank tod then Inr []
                           else (case parse_time_of_day tod of
                                   Inl e \<Rightarrow> Inl e
                                 | Inr t \<Rightarrow> Inr [t]))) of
             Inl e \<Rightarrow> Inl e
           | Inr out2 \<Rightarrow> Inr (sort (remdups out2))))"

definition DOW_MAP :: "(string \<times> int) list" where
  "DOW_MAP = [(''Mon'', 0), (''Tue'', 1), (''Wed'', 2), (''Thu'', 3), (''Fri'', 4),
              (''Sat'', 5), (''Sun'', 6)]"

text \<open>The table \<open>norm\<close> of \<open>_parse_days\<close> and \<open>norm.get(t.upper(), t)\<close>.\<close>

definition norm :: "(string \<times> string) list" where
  "norm = [(''MON'', ''Mon''), (''MONDAY'', ''Mon''), (''TUE'', ''Tue''), (''TUESDAY'', ''Tue''),
           (''WED'', ''Wed''), (''WEDNESDAY'', ''Wed''), (''THU'', ''Thu''), (''THURSDAY'', ''Thu''),
           (''FRI'', ''Fri''), (''FRIDAY'', ''Fri''), (''SAT'', ''Sat''), (''SATURDAY'', ''Sat''),
           (''SUN'', ''Sun''), (''SUNDAY'', ''Sun'')]"

definition norm_token :: "string \<Rightarrow> string" where
  "norm_token t = (case map_of norm (upper t) of None \<Rightarrow> t | Some n \<Rightarrow> n)"

text \<open>\<open>_parse_days\<close>: the sorted set of the weekdays of the known tokens.\<close>

definition parse_days :: "days_cell option \<Rightarrow> int list" where
  "parse_days raw =
     (let tokens =
            (case raw of
               None \<Rightarrow> []
             | Some (DaysTokens ts) \<Rightarrow> filter (\<lambda>t. t \<noteq> []) (map strip ts)
             | Some (DaysStr s) \<Rightarrow>
                 if s = [] then [] else filter (\<lambda>t. t \<noteq> []) (map strip (split_on CHR '','' s)))
      in sort (remdups (List.map_filter (\<lambda>t. map_of DOW_MAP (norm_token t)) tokens)))"

section \<open>The Recurrence Resolver: \<open>compute_next_run_at\<close>\<close>

text \<open>\<open>str(job.get("schedule_type") or "").strip().upper()\<close>\<close>

definition stype_of :: "job \<Rightarrow> string" where
  "stype_of j = upper (strip (case schedule_type j of None \<Rightarrow> [] | Some s \<Rightarrow> s))"

text \<open>\<open>(str(job.get("timezone") or default_tz)).strip() or default_tz\<close>\<close>

definition job_tz_name :: "job \<Rightarrow> string \<Rightarrow> string" where
  "job_tz_name j default_tz =
     (let s = strip (case timezone j of
                       None \<Rightarrow> default_tz
                     | Some t \<Rightarrow> if t = [] then default_tz else t)
      in if s = [] then default_tz else s)"

text \<open>
  The DAILY loop over \<open>day_offset\<close>: on each day the first of the sorted times whose
  candidate is later than \<open>now\<close> is returned, converted by \<open>conv\<close>.
\<close>

fun daily_scan :: "(datetime \<Rightarrow> datetime) \<Rightarrow> datetime \<Rightarrow> dtime list \<Rightarrow> nat list
                     \<Rightarrow> py_error + datetime option" where
  "daily_scan conv now tms [] = Inr None"
| "daily_scan conv now tms (day_offset # rest) =
     (case date_plus_days (date_of now) day_offset of
        Inl e \<Rightarrow> Inl e
      | Inr d \<Rightarrow>
          (case find (\<lambda>cand. cand > now) (map (datetime_at d) tms) of
             Some cand \<Rightarrow> Inr (Some (conv cand))
           | None \<Rightarrow> daily_scan conv now tms rest))"

text \<open>The inner loop of WEEKLY: the earliest candidate of the day later than \<open>now\<close>.\<close>

definition weekly_best :: "datetime \<Rightarrow> int \<Rightarrow> dtime list \<Rightarrow> datetime option" where
  "weekly_best now d tms =
     fold (\<lambda>tt best.
             let cand = datetime_at d tt in
             if cand \<le> now then best
             else (case best of
                     None \<Rightarrow> Some cand
                   | Some b \<Rightarrow> if cand < b then Some cand else Some b))
          tms None"

text \<open>The WEEKLY loop over \<open>i\<close>; it stops at the first day that gives a candidate.\<close>

fun weekly_scan :: "(datetime \<Rightarrow> datetime) \<Rightarrow> datetime \<Rightarrow> dtime list \<Rightarrow> int list \<Rightarrow> nat list
                      \<Rightarrow> py_error + datetime option" where
  "weekly_scan conv now tms dows [] = Inr None"
| "weekly_scan conv now tms dows (i # rest) =
     (case date_plus_days (date_of now) i of
        Inl e \<Rightarrow> Inl e
      | Inr d \<Rightarrow>
          if weekday d \<notin> set dows then weekly_scan conv now tms dows rest
          else
            (case weekly_best now d tms of
               Some best \<Rightarrow> Inr (Some (conv best))
             | None \<Rightarrow> weekly_scan conv now tms dows rest))"

text \<open>
  \<open>compute_next_run_at(job, default_tz)\<close>. The function has no \<open>now\<close> parameter: it
  reads the clock, in the job's zone when that resolves and in the host's zone
  otherwise. \<open>_parse_times\<close> is called before the branch on the schedule type.
  \<open>run_at\<close> is the \<open>datetime\<close> of a DATETIME column.
\<close>

definition compute_next_run_at :: "env \<Rightarrow> job \<Rightarrow> string \<Rightarrow> py_error + datetime option" where
  "compute_next_run_at e j default_tz =
     (let stype = stype_of j;
          job_tz = get_zoneinfo e (job_tz_name j default_tz);
          sess_tz = get_zoneinfo e default_tz;
          now = now_in e job_tz
      in case parse_times j of
           Inl err \<Rightarrow> Inl err
         | Inr tms \<Rightarrow>
             if stype = ''ONCE'' then
               (case run_at j of
                  None \<Rightarrow> Inr None
                | Some run \<Rightarrow>
                    if job_tz \<noteq> None then
                      (if run \<le> now then Inr None
                       else Inr (Some (to_session job_tz sess_tz run)))
                    else (if run > now then Inr (Some run) else Inr None))
             else if tms = [] then Inr None
             else if stype = ''DAILY'' then
               daily_scan (to_session job_tz sess_tz) now tms [0..<14]
             else if stype = ''WEEKLY'' then
               (let dows = parse_days (days_of_week j) in
                if dows = [] then Inr None
                else weekly_scan (to_session job_tz sess_tz) now tms dows [0..<366])
             else Inr None)"

section \<open>The job store\<close>

text \<open>
  The table \<open>schedule_jobs\<close> is the list of its rows. An \<open>UPDATE ... WHERE id=%s\<close>
  rewrites the rows of that id and touches no other row and no other column.
\<close>

type_synonym table = "job list"

text \<open>
  \<open>fetch_due_jobs\<close>: \<open>WHERE enabled=1 AND next_run_at IS NOT NULL AND next_run_at<=NOW()
  ORDER BY next_run_at ASC LIMIT batch\<close>.
\<close>

definition is_due :: "env \<Rightarrow> job \<Rightarrow> bool" where
  "is_due e r = (enabled r \<and> (case next_run_at r of None \<Rightarrow> False | Some t \<Rightarrow> t \<le> db_now e))"

definition fetch_due_jobs :: "env \<Rightarrow> table \<Rightarrow> nat \<Rightarrow> job list" where
  "fetch_due_jobs e tbl batch =
     take batch (sort_key (\<lambda>r. case next_run_at r of None \<Rightarrow> 0 | Some t \<Rightarrow> t) (filter (is_due e) tbl))"

definition fetch_job_by_id :: "table \<Rightarrow> int \<Rightarrow> job option" where
  "fetch_job_by_id tbl jid = find (\<lambda>r. job_id r = jid) tbl"

definition update_where_id :: "int \<Rightarrow> (job \<Rightarrow> job) \<Rightarrow> table \<Rightarrow> table" where
  "update_where_id jid f tbl = map (\<lambda>r. if job_id r = jid then f r else r) tbl"

definition update_job_after_success :: "env \<Rightarrow> table \<Rightarrow> int \<Rightarrow> datetime option \<Rightarrow> bool \<Rightarrow> table" where
  "update_job_after_success e tbl jid next_run disable =
     (if disable then
        update_where_id jid (\<lambda>r. r\<lparr>enabled := False, last_run_at := Some (db_now e)\<rparr>) tbl
      else
        (case next_run of
           None \<Rightarrow> update_where_id jid (\<lambda>r. r\<lparr>enabled := False, last_run_at := Some (db_now e)\<rparr>) tbl
         | Some t \<Rightarrow>
             update_where_id jid
               (\<lambda>r. r\<lparr>last_run_at := Some (db_now e), next_run_at := Some t, enabled := True\<rparr>) tbl))"

text \<open>
  \<open>update_job_after_failure\<close>: \<open>retry_at\<close> is the host's naive clock plus
  \<open>int(backoff_sec or 60)\<close> seconds. Nothing counts the retries.
\<close>

definition update_job_after_failure :: "env \<Rightarrow> table \<Rightarrow> int \<Rightarrow> int \<Rightarrow> int \<Rightarrow> table \<times> datetime option" where
  "update_job_after_failure e tbl jid maxr backoff_sec =
     (if maxr \<noteq> 0 \<and> maxr > 0 then
        (let retry_at = now_in e None + (if backoff_sec = 0 then 60 else backoff_sec) * us_per_sec
         in (update_where_id jid
               (\<lambda>r. r\<lparr>next_run_at := Some retry_at, last_run_at := Some (db_now e)\<rparr>) tbl,
             Some retry_at))
      else (tbl, None))"

section \<open>Dispatching one job: \<open>_execute_one\<close>\<close>

text \<open>
  The engine's state: the table, the in-flight set, the immediate queue, the number of
  sends made so far, and a trace of the log lines the properties speak of
  (the header line of a dispatch stands for the outbound send).
\<close>

datatype event =
    Dispatch int bool
  | Paused int
  | RetryScheduled int datetime
  | NotFound int
  | AlreadyInflight int
  | ImmediateError py_error
  | SchedulerError py_error

record state =
  jobs_table :: table
  INFLIGHT :: "int set"
  IMMEDIATE_QUEUE :: "int list"
  sends :: nat
  trace :: "event list"

definition log_event :: "event \<Rightarrow> state \<Rightarrow> state" where
  "log_event ev st = st\<lparr>trace := trace st @ [ev]\<rparr>"

text \<open>
  The part shared by the success path and the failure path without retry: re-read the
  row, call the Resolver (an exception leaves before any update), log the pause, update.
\<close>

definition advance :: "env \<Rightarrow> string \<Rightarrow> job \<Rightarrow> bool \<Rightarrow> state \<Rightarrow> py_error option \<times> state" where
  "advance e default_tz j success st =
     (let fresh = (case fetch_job_by_id (jobs_table st) (job_id j) of None \<Rightarrow> j | Some r \<Rightarrow> r);
          disable = (success \<and> stype_of fresh = ''ONCE'')
      in case compute_next_run_at e fresh default_tz of
           Inl err \<Rightarrow> (Some err, st)
         | Inr next_run \<Rightarrow>
             (None,
              (if \<not> disable \<and> next_run = None then log_event (Paused (job_id j)) st else st)
                \<lparr>jobs_table :=
                   update_job_after_success e (jobs_table st) (job_id j) next_run disable\<rparr>))"

text \<open>
  \<open>_execute_one\<close>, for the outcome \<open>ok\<close> of \<open>sender.send(job)\<close>. The scheduled loop of
  \<open>run_loop\<close> repeats the same statements inline. \<open>max_retries\<close> and
  \<open>retry_backoff_sec\<close> are read from the row that was dispatched, the schedule from the
  row re-read after the send.
\<close>

definition execute_one :: "env \<Rightarrow> string \<Rightarrow> bool \<Rightarrow> bool \<Rightarrow> job \<Rightarrow> state \<Rightarrow> py_error option \<times> state" where
  "execute_one e default_tz ok immediate j st =
     (let st1 = (log_event (Dispatch (job_id j) immediate) st)\<lparr>sends := Suc (sends st)\<rparr>
      in if ok then advance e default_tz j True st1
         else
           (let maxr = (case max_retries j of None \<Rightarrow> 0 | Some n \<Rightarrow> n);
                backoff = (case retry_backoff_sec j of None \<Rightarrow> 60 | Some n \<Rightarrow> if n = 0 then 60 else n)
            in case update_job_after_failure e (jobs_table st1) (job_id j) maxr backoff of
                 (tbl, Some retry_at) \<Rightarrow>
                   (None, (log_event (RetryScheduled (job_id j) retry_at) st1)\<lparr>jobs_table := tbl\<rparr>)
               | (tbl, None) \<Rightarrow> advance e default_tz j False st1))"

section \<open>One poll cycle of \<open>run_loop\<close>\<close>

text \<open>
  The world outside the engine, by the number of sends made so far: what the clocks read
  and whether the send of a job succeeds.
\<close>

record world =
  env_at :: "nat \<Rightarrow> env"
  send_ok :: "nat \<Rightarrow> job \<Rightarrow> bool"

text \<open>The body of \<open>for jid in immediate_ids\<close>.\<close>

definition immediate_step :: "world \<Rightarrow> string \<Rightarrow> state \<Rightarrow> int \<Rightarrow> state" where
  "immediate_step w default_tz st jid =
     (case fetch_job_by_id (jobs_table st) jid of
        None \<Rightarrow> log_event (NotFound jid) st
      | Some jobx \<Rightarrow>
          if jid \<in> INFLIGHT st then log_event (AlreadyInflight jid) st
          else
            (case execute_one (env_at w (sends st)) default_tz (send_ok w (sends st) jobx) True jobx
                    (st\<lparr>INFLIGHT := insert jid (INFLIGHT st)\<rparr>) of
               (None, st') \<Rightarrow> st'\<lparr>INFLIGHT := INFLIGHT st' - {jid}\<rparr>
             | (Some err, st') \<Rightarrow>
                 log_event (ImmediateError err) (st'\<lparr>INFLIGHT := INFLIGHT st' - {jid}\<rparr>)))"

text \<open>The loop \<open>for job in jobs\<close>: an exception leaves the loop and the cycle.\<close>

fun scheduled_loop :: "world \<Rightarrow> string \<Rightarrow> job list \<Rightarrow> state \<Rightarrow> py_error option \<times> state" where
  "scheduled_loop w default_tz [] st = (None, st)"
| "scheduled_loop w default_tz (j # js) st =
     (case execute_one (env_at w (sends st)) default_tz (send_ok w (sends st) j) False j st of
        (Some err, st') \<Rightarrow> (Some err, st')
      | (None, st') \<Rightarrow> scheduled_loop w default_tz js st')"

text \<open>
  One pass of \<open>while True\<close>: fetch the due batch, drain at most 50 queued ids and run
  them, then run the batch that was fetched before.
\<close>

definition run_cycle :: "world \<Rightarrow> string \<Rightarrow> nat \<Rightarrow> state \<Rightarrow> state" where
  "run_cycle w default_tz batch st =
     (let jobs = fetch_due_jobs (env_at w (sends st)) (jobs_table st) batch;
          immediate_ids = take 50 (IMMEDIATE_QUEUE st);
          st1 = st\<lparr>IMMEDIATE_QUEUE := drop 50 (IMMEDIATE_QUEUE st)\<rparr>;
          st2 = foldl (immediate_step w default_tz) st1 immediate_ids
      in case scheduled_loop w default_tz jobs st2 of
           (None, st3) \<Rightarrow> st3
         | (Some err, st3) \<Rightarrow> log_event (SchedulerError err) st3)"

section \<open>Concrete inputs\<close>

text \<open>Inputs at which the theorems below are evaluated.\<close>

definition no_files :: filesystem where
  "no_files = Map.empty"

definition forged_query_request :: request where
  "forged_query_request =
     \<lparr>url_path = ''/run_immediate'', qs = [(''job_id'', [''7'']), (''token'', [''wrong''])],
      x_token = Some ''secret''\<rparr>"

definition header_only_request :: request where
  "header_only_request =
     \<lparr>url_path = ''/run_immediate'', qs = [(''job_id'', [''7''])], x_token = Some ''secret''\<rparr>"

text \<open>
  Zones of fixed offset, a zone database that knows two keys, a host on UTC, and the
  clock at 01:00 UTC of day 100 (a Wednesday), which is 09:00 in Taipei.
\<close>

definition fixed_offset :: "int \<Rightarrow> zone" where
  "fixed_offset h =
     \<lparr>from_utc = (\<lambda>u. u + h * 3600 * us_per_sec), to_utc = (\<lambda>t. t - h * 3600 * us_per_sec)\<rparr>"

definition demo_zoneinfo :: "string \<Rightarrow> zone option" where
  "demo_zoneinfo key =
     (if key = ''Asia/Taipei'' then Some (fixed_offset 8)
      else if key = ''UTC'' then Some (fixed_offset 0)
      else None)"

definition demo_env :: env where
  "demo_env =
     \<lparr>utc_now = 100 * us_per_day + 3600 * us_per_sec,
      db_now = 100 * us_per_day + 9 * 3600 * us_per_sec,
      local_zone = fixed_offset 0, zoneinfo_db = demo_zoneinfo\<rparr>"

definition blank_job :: job where
  "blank_job =
     \<lparr>job_id = 42, name = ''demo'', enabled = True, schedule_type = None, run_at = None,
      times_of_day = None, time_of_day = None, days_of_week = None, timezone = None,
      channel = ''HTTP'', payload = [], max_retries = None, retry_backoff_sec = None,
      next_run_at = Some (100 * us_per_day), last_run_at = None\<rparr>"

definition daily_job :: job where
  "daily_job = blank_job\<lparr>schedule_type := Some ''daily'', times_of_day := Some ''08:00,20:00''\<rparr>"

definition mars_job :: job where
  "mars_job = daily_job\<lparr>timezone := Some ''Mars/Phobos''\<rparr>"

definition taipei_host_env :: env where
  "taipei_host_env = demo_env\<lparr>local_zone := fixed_offset 8\<rparr>"


text \<open>
  A host in Taipei whose clocks start at 09:00:00 of day 100 and stand 32 seconds later
  at each further send; worlds in which every send fails, or every send succeeds; jobs
  that are due.
\<close>

definition clock_env :: "nat \<Rightarrow> env" where
  "clock_env k =
     \<lparr>utc_now = 100 * us_per_day + 3600 * us_per_sec + int k * 32 * us_per_sec,
      db_now = 100 * us_per_day + 9 * 3600 * us_per_sec + int k * 32 * us_per_sec,
      local_zone = fixed_offset 8, zoneinfo_db = demo_zoneinfo\<rparr>"


definition working_world :: world where
  "working_world = \<lparr>env_at = clock_env, send_ok = (\<lambda>n j. True)\<rparr>"

definition initial_state :: "table \<Rightarrow> state" where
  "initial_state tbl = \<lparr>jobs_table = tbl, INFLIGHT = {}, IMMEDIATE_QUEUE = [], sends = 0, trace = []\<rparr>"


definition bad_daily_job :: job where
  "bad_daily_job = blank_job\<lparr>schedule_type := Some ''DAILY'', times_of_day := Some ''abc''\<rparr>"

definition once_bad_job :: job where
  "once_bad_job = blank_job\<lparr>schedule_type := Some ''ONCE'', run_at := Some (100 * us_per_day), times_of_day := Some ''abc''\<rparr>"

definition monthly_bad_job :: job where
  "monthly_bad_job = blank_job\<lparr>schedule_type := Some ''MONTHLY'', times_of_day := Some ''abc''\<rparr>"


section \<open>Properties of the configuration loader\<close>

lemma merge_section_self: "merge_section d d = d"
proof -
  have "set xs \<subseteq> set d \<Longrightarrow> foldl setdefault d xs = d" for xs
    by (induction xs) (auto simp: setdefault_def)
  then show ?thesis by (simp add: merge_section_def)
qed

lemma merge_defaults_self: "merge_defaults DEFAULT_CONFIG DEFAULT_CONFIG = Inr DEFAULT_CONFIG"
  by (simp add: DEFAULT_CONFIG_def merge_section_self)

text \<open>
  C9, as the code has it: when the configuration file is absent, \<open>load_config\<close> writes
  \<open>DEFAULT_CONFIG\<close> at the path, prints the warning, and goes on to return the
  defaults; in that written default \<open>scheduler.control_token\<close> is the placeholder
  \<open>CHANGE_ME\<close>, so the token gate of the control plane is on by default.
\<close>

theorem load_config_absent:
  assumes "fs path = None"
  shows "load_config fs path =
           \<lparr>files = fs(path \<mapsto> FJson DEFAULT_CONFIG), printed = [WarnConfigCreated path],
            loaded = Inr DEFAULT_CONFIG\<rparr>
         \<and> cfg_get DEFAULT_CONFIG ''scheduler'' ''control_token'' = Some (JStr ''CHANGE_ME'')"
proof -
  have "cfg_get DEFAULT_CONFIG ''scheduler'' ''control_token'' = Some (JStr ''CHANGE_ME'')"
    by (simp add: cfg_get_def DEFAULT_CONFIG_def)
  moreover have "load_config fs path =
      \<lparr>files = fs(path \<mapsto> FJson DEFAULT_CONFIG), printed = [WarnConfigCreated path],
       loaded = Inr DEFAULT_CONFIG\<rparr>"
    using assms by (simp add: load_config_def merge_defaults_self)
  ultimately show ?thesis by simp
qed

text \<open>Witness for C9: starting from a file system with no file at all.\<close>

theorem load_config_absent_witness:
  "no_files ''config.json'' = None
   \<and> printed (load_config no_files ''config.json'') = [WarnConfigCreated ''config.json'']
   \<and> loaded (load_config no_files ''config.json'') = Inr DEFAULT_CONFIG
   \<and> files (load_config no_files ''config.json'') ''config.json'' = Some (FJson DEFAULT_CONFIG)"
proof -
  have h: "no_files ''config.json'' = None" by (simp add: no_files_def)
  show ?thesis using h load_config_absent [of no_files "''config.json''"] by simp
qed

text \<open>
  C9 as the specification states it fails: the default written for an absent file does
  not carry the empty string as \<open>scheduler.control_token\<close>.
\<close>

theorem default_control_token_not_empty:
  "files (load_config no_files ''config.json'') ''config.json'' = Some (FJson DEFAULT_CONFIG)
   \<and> cfg_get DEFAULT_CONFIG ''scheduler'' ''control_token'' \<noteq> Some (JStr [])"
  by (simp add: load_config_def no_files_def cfg_get_def DEFAULT_CONFIG_def)

section \<open>Properties of the control plane\<close>

lemma py_int_7: "py_int ''7'' = Some 7"
  by (simp add: py_int_def strip_def is_space_def parse_unsigned_def digit_val_def)

text \<open>
  C3, as the code has it: with a non-empty control token configured, a
  \<open>GET /run_immediate\<close> is judged on one effective credential, the \<open>token\<close> query
  parameter when it is present and non-empty and the \<open>X-Token\<close> header otherwise.
  If that credential equals the configured token the request is processed exactly as
  with no token configured; otherwise the answer is 403 and nothing is enqueued.
\<close>

theorem auth_gate_effective_token:
  assumes "control_token \<noteq> []" and "url_path req = ''/run_immediate''"
    and "qs_first (qs req) ''job_id'' = Inr jid" and "qs_first (qs req) ''token'' = Inr qtok"
  shows "do_GET control_token req queue =
           (if py_or qtok (x_token req) = Some control_token then do_GET [] req queue
            else ((403, PError ''forbidden''), queue))"
  using assms by (auto simp: do_GET_def Let_def split: option.splits)

text \<open>Witness for C3: the header alone carries the token and the id is queued.\<close>

theorem auth_gate_effective_token_witness:
  "do_GET ''secret'' header_only_request [] = ((200, PQueued 7), [7])"
proof -
  have h: "qs_first (qs header_only_request) ''job_id'' = Inr (Some ''7'')"
          "qs_first (qs header_only_request) ''token'' = Inr None"
          "url_path header_only_request = ''/run_immediate''"
    by (simp_all add: header_only_request_def qs_first_def)
  have "do_GET ''secret'' header_only_request [] = do_GET [] header_only_request []"
    using auth_gate_effective_token [OF _ h(3) h(1) h(2), of "''secret''" "[]"]
    by (simp add: py_or_def header_only_request_def)
  then show ?thesis
    by (simp add: do_GET_def h py_or_def py_int_7 enqueue_immediate_def)
qed

text \<open>
  C3 as the specification states it fails: a request whose \<open>X-Token\<close> header equals the
  configured token is answered 403 when it also carries a different \<open>token\<close> query
  parameter.
\<close>

theorem header_match_rejected:
  "x_token forged_query_request = Some ''secret''
   \<and> do_GET ''secret'' forged_query_request [] = ((403, PError ''forbidden''), [])"
  by (simp add: forged_query_request_def do_GET_def qs_first_def py_or_def)

section \<open>Properties of the Recurrence Resolver\<close>








lemma compute_cong:
  assumes "get_zoneinfo e (job_tz_name j tz) = get_zoneinfo e' (job_tz_name j' tz')"
    and "now_in e (get_zoneinfo e (job_tz_name j tz)) = now_in e' (get_zoneinfo e' (job_tz_name j' tz'))"
    and "to_session (get_zoneinfo e (job_tz_name j tz)) (get_zoneinfo e tz)
           = to_session (get_zoneinfo e' (job_tz_name j' tz')) (get_zoneinfo e' tz')"
    and "stype_of j = stype_of j'" and "parse_times j = parse_times j'"
    and "run_at j = run_at j'" and "days_of_week j = days_of_week j'"
  shows "compute_next_run_at e j tz = compute_next_run_at e' j' tz'"
  unfolding compute_next_run_at_def Let_def
  by (simp only: assms(2) assms(3)) (simp only: assms(1) assms(4) assms(5) assms(6) assms(7))






text \<open>
  C1, as the code has it: the Resolver takes the row and the default zone name and reads
  \<open>now\<close> from the ambient clock. For a fixed row and default zone name its result is
  fixed by the instant the clock shows and the zone database, provided the row's zone
  name resolves; when it does not, the result depends on the host's local zone as well.
  MySQL's clock is never read.
\<close>

theorem resolver_frame:
  assumes "utc_now e = utc_now e'" and "zoneinfo_db e = zoneinfo_db e'"
    and "zoneinfo_db e (job_tz_name j default_tz) \<noteq> None \<or> local_zone e = local_zone e'"
  shows "compute_next_run_at e j default_tz = compute_next_run_at e' j default_tz"
proof -
  have z: "get_zoneinfo e n = get_zoneinfo e' n" for n
    using assms(2) by (simp add: get_zoneinfo_def)
  have "now_in e (get_zoneinfo e (job_tz_name j default_tz))
          = now_in e' (get_zoneinfo e' (job_tz_name j default_tz))"
    using assms by (auto simp: now_in_def get_zoneinfo_def split: option.splits)
  then show ?thesis
    by (intro compute_cong) (simp_all add: z)
qed

text \<open>
  Witness for C1: the same instant on a host in another zone and with another MySQL
  clock; the row's zone resolves and the result is the same.
\<close>

theorem resolver_frame_witness:
  "compute_next_run_at demo_env daily_job ''Asia/Taipei''
     = compute_next_run_at (taipei_host_env\<lparr>db_now := 0\<rparr>) daily_job ''Asia/Taipei''"
proof -
  have a: "utc_now demo_env = utc_now (taipei_host_env\<lparr>db_now := 0\<rparr>)"
          "zoneinfo_db demo_env = zoneinfo_db (taipei_host_env\<lparr>db_now := 0\<rparr>)"
    by (simp_all add: taipei_host_env_def)
  have b: "zoneinfo_db demo_env (job_tz_name daily_job ''Asia/Taipei'') \<noteq> None"
    by code_simp
  show ?thesis
    using resolver_frame [OF a(1) a(2) disjI1 [OF b]] .
qed

text \<open>
  C1 as the specification states it fails: the same row, the same instant and the same
  default zone give two different results on two hosts that differ in their local zone
  only.
\<close>

theorem resolver_depends_on_host_zone:
  "utc_now taipei_host_env = utc_now demo_env
   \<and> zoneinfo_db taipei_host_env = zoneinfo_db demo_env
   \<and> compute_next_run_at demo_env mars_job ''Asia/Taipei''
       = Inr (Some (100 * us_per_day + 8 * 3600 * us_per_sec))
   \<and> compute_next_run_at taipei_host_env mars_job ''Asia/Taipei''
       = Inr (Some (100 * us_per_day + 20 * 3600 * us_per_sec))"
proof -
  have "compute_next_run_at demo_env mars_job ''Asia/Taipei''
       = Inr (Some (100 * us_per_day + 8 * 3600 * us_per_sec))"
    by code_simp
  moreover have "compute_next_run_at taipei_host_env mars_job ''Asia/Taipei''
       = Inr (Some (100 * us_per_day + 20 * 3600 * us_per_sec))"
    by code_simp
  ultimately show ?thesis by (simp add: taipei_host_env_def)
qed

section \<open>Properties of the dispatch\<close>



lemma once_success:
  assumes "compute_next_run_at e (case fetch_job_by_id (jobs_table st) (job_id j) of
                                    None \<Rightarrow> j | Some r \<Rightarrow> r) default_tz = Inr nxt"
    and "stype_of (case fetch_job_by_id (jobs_table st) (job_id j) of
                                    None \<Rightarrow> j | Some r \<Rightarrow> r) = ''ONCE''"
  shows "execute_one e default_tz True immediate j st =
           (None,
            st\<lparr>jobs_table :=
                 update_where_id (job_id j)
                   (\<lambda>r. r\<lparr>enabled := False, last_run_at := Some (db_now e)\<rparr>)
                   (jobs_table st),
               sends := Suc (sends st),
               trace := trace st @ [Dispatch (job_id j) immediate]\<rparr>)"
  using assms
  by (simp add: execute_one_def advance_def update_job_after_success_def log_event_def Let_def)

lemma no_next_run_pauses:
  assumes "compute_next_run_at e (case fetch_job_by_id (jobs_table st) (job_id j) of
                                    None \<Rightarrow> j | Some r \<Rightarrow> r) default_tz = Inr None"
    and "stype_of (case fetch_job_by_id (jobs_table st) (job_id j) of
                                    None \<Rightarrow> j | Some r \<Rightarrow> r) \<noteq> ''ONCE''"
    and "ok \<or> (case max_retries j of None \<Rightarrow> 0 | Some n \<Rightarrow> n) \<le> 0"
  shows "execute_one e default_tz ok immediate j st =
           (None,
            st\<lparr>jobs_table :=
                 update_where_id (job_id j)
                   (\<lambda>r. r\<lparr>enabled := False, last_run_at := Some (db_now e)\<rparr>)
                   (jobs_table st),
               sends := Suc (sends st),
               trace := trace st @ [Dispatch (job_id j) immediate, Paused (job_id j)]\<rparr>)"
  using assms
  by (auto simp: execute_one_def advance_def update_job_after_success_def
      update_job_after_failure_def log_event_def Let_def split: option.splits)

lemma unknown_type_none:
  assumes "parse_times j = Inr tms"
    and "stype_of j \<noteq> ''ONCE''" "stype_of j \<noteq> ''DAILY''" "stype_of j \<noteq> ''WEEKLY''"
  shows "compute_next_run_at e j default_tz = Inr None"
  using assms by (simp add: compute_next_run_at_def Let_def)

lemma empty_times_none:
  assumes "parse_times j = Inr []" and "stype_of j \<noteq> ''ONCE''"
  shows "compute_next_run_at e j default_tz = Inr None"
  using assms by (simp add: compute_next_run_at_def Let_def)

lemma no_weekday_none:
  assumes "parse_times j = Inr tms" and "stype_of j = ''WEEKLY''" and "parse_days (days_of_week j) = []"
  shows "compute_next_run_at e j default_tz = Inr None"
  using assms by (simp add: compute_next_run_at_def Let_def)

lemma paused_not_fetched:
  assumes "\<not> enabled r"
  shows "r \<notin> set (fetch_due_jobs e tbl batch)"
proof
  assume "r \<in> set (fetch_due_jobs e tbl batch)"
  then have "r \<in> set (filter (is_due e) tbl)"
    unfolding fetch_due_jobs_def by (auto dest!: in_set_takeD)
  with assms show False by (simp add: is_due_def)
qed




text \<open>
  C2 at a recurring job whose \<open>times_of_day\<close> does not parse: the Resolver raises
  \<open>ValueError\<close> instead of yielding none; the exception leaves the cycle before any
  update, the row stays as it was (enabled and due), and the next cycle dispatches it
  again.
\<close>

theorem unparseable_times_hot_loop:
  "compute_next_run_at (clock_env 0) bad_daily_job ''Asia/Taipei'' = Inl ValueError
   \<and> trace (run_cycle working_world ''Asia/Taipei'' 20
             (run_cycle working_world ''Asia/Taipei'' 20 (initial_state [bad_daily_job])))
       = [Dispatch 42 False, SchedulerError ValueError, Dispatch 42 False, SchedulerError ValueError]
   \<and> jobs_table (run_cycle working_world ''Asia/Taipei'' 20
             (run_cycle working_world ''Asia/Taipei'' 20 (initial_state [bad_daily_job])))
       = [bad_daily_job]
   \<and> enabled bad_daily_job"
  by code_simp

text \<open>
  C8 at a ONCE job whose unused \<open>times_of_day\<close> does not parse: after the successful
  send the Resolver is still called and raises, the update is never reached, the row
  stays enabled, and the next cycle sends the job again.
\<close>

theorem once_job_bad_times_stays_enabled:
  "stype_of once_bad_job = ''ONCE''
   \<and> fst (execute_one (clock_env 0) ''Asia/Taipei'' True False once_bad_job
            (initial_state [once_bad_job])) = Some ValueError
   \<and> jobs_table (snd (execute_one (clock_env 0) ''Asia/Taipei'' True False once_bad_job
                        (initial_state [once_bad_job]))) = [once_bad_job]
   \<and> enabled once_bad_job
   \<and> trace (run_cycle working_world ''Asia/Taipei'' 20
             (run_cycle working_world ''Asia/Taipei'' 20 (initial_state [once_bad_job])))
       = [Dispatch 42 False, SchedulerError ValueError, Dispatch 42 False, SchedulerError ValueError]"
  by code_simp

text \<open>
  C10 at a row of unknown schedule type whose \<open>times_of_day\<close> does not parse: the
  Resolver raises \<open>ValueError\<close> before it looks at the type, and the dispatch leaves
  the row enabled.
\<close>

theorem unknown_type_bad_times_raises:
  "stype_of monthly_bad_job = ''MONTHLY''
   \<and> compute_next_run_at (clock_env 0) monthly_bad_job ''Asia/Taipei'' = Inl ValueError
   \<and> fst (execute_one (clock_env 0) ''Asia/Taipei'' True False monthly_bad_job
            (initial_state [monthly_bad_job])) = Some ValueError
   \<and> jobs_table (snd (execute_one (clock_env 0) ''Asia/Taipei'' True False monthly_bad_job
                        (initial_state [monthly_bad_job]))) = [monthly_bad_job]
   \<and> enabled monthly_bad_job"
  by code_simp

section \<open>Properties of the poll cycle\<close>




























end
